theory Spec2Isabelle
  imports Main "HOL-Library.Sublist"
begin

section \<open>Data model\<close>

text \<open>
  Values that travel through the program untouched (decoded JSON bodies, validated and
  coerced data) are JSON values. The program never inspects them, so numbers are kept
  as integers.
\<close>

datatype json =
    JNull
  | JBool bool
  | JNum int
  | JStr string
  | JArr "json list"
  | JObj "(string \<times> json) list"

text \<open>
  \<^verbatim>\<open>StandardSchemaV1.Issue\<close>: the program reads only the \<^verbatim>\<open>message\<close> of an issue.
\<close>

record issue =
  message :: string

text \<open>
  The object a schema's \<^verbatim>\<open>validate\<close> resolves to. The program tests the truthiness of
  \<^verbatim>\<open>result.issues\<close> (an array, also an empty one, is truthy; an absent field is not)
  and otherwise reads \<^verbatim>\<open>result.value\<close>.
\<close>

record validation_result =
  result_issues :: "issue list option"
  result_value :: json

text \<open>
  The platform's \<^verbatim>\<open>Response\<close>, as far as the program reads it: \<^verbatim>\<open>status\<close>,
  \<^verbatim>\<open>statusText\<close>, \<^verbatim>\<open>headers.get('content-length')\<close> and the outcome of
  \<^verbatim>\<open>json()\<close>. The platform's \<^verbatim>\<open>json()\<close> either resolves to the decoded body or rejects
  with a plain error (a SyntaxError or a TypeError), here \<open>Inl\<close> of its message.
\<close>

record response =
  status :: int
  statusText :: string
  content_length :: "string option"
  json_result :: "string + json"

text \<open>\<^verbatim>\<open>response.ok\<close> is derived by the platform from the status being 2xx.\<close>

definition ok :: "response \<Rightarrow> bool" where
  "ok r = (200 \<le> status r \<and> status r \<le> 299)"

text \<open>
  An instance of a class made by \<^verbatim>\<open>defineError\<close> (a subclass of \<^verbatim>\<open>ApiError\<close>).
  \<open>constructor_id\<close> is the identity of the class that built it, which is what
  \<^verbatim>\<open>instanceof\<close> looks at.
\<close>

record api_error =
  error_name :: string
  error_message :: string
  data :: json
  error_response :: response
  statusCode :: int
  constructor_id :: nat

text \<open>
  What a \<^verbatim>\<open>throw\<close> can carry, split the way the program's \<^verbatim>\<open>instanceof\<close> tests split
  it: an \<^verbatim>\<open>ApiError\<close>, a \<^verbatim>\<open>SchemaValidationError\<close> (message and issues), any other
  \<^verbatim>\<open>Error\<close> (its message), or a value that is no \<^verbatim>\<open>Error\<close> at all.
\<close>

datatype thrown =
    ApiErrorInstance api_error
  | SchemaValidationError string "issue list"
  | ErrorObj string
  | NonError

datatype 'a outcome = Return 'a | Throw thrown

text \<open>
  A Standard Schema: the program calls \<^verbatim>\<open>schema['~standard'].validate(data)\<close> and awaits
  it. The call resolves to a result object or throws.
\<close>

record standard_schema =
  validate :: "json \<Rightarrow> validation_result outcome"

text \<open>
  Observable effects, in the order they happen: reading the body with \<^verbatim>\<open>json()\<close>,
  calling a schema's \<^verbatim>\<open>validate\<close>, and the \<^verbatim>\<open>console.error\<close> of the success parser.
\<close>

datatype event =
    ReadJson
  | Validate standard_schema json
  | ConsoleError "issue list" json

section \<open>validation.ts\<close>

text \<open>\<^verbatim>\<open>result.issues[0]?.message || 'Unknown error'\<close>: the empty string is falsy.\<close>

definition first_issue_message :: "issue list \<Rightarrow> string" where
  "first_issue_message iss =
     (case iss of
        [] \<Rightarrow> ''Unknown error''
      | i # _ \<Rightarrow> if message i = [] then ''Unknown error'' else message i)"

definition validateSchema :: "standard_schema \<Rightarrow> json \<Rightarrow> event list \<times> json outcome" where
  "validateSchema schema d =
     (case validate schema d of
        Throw t \<Rightarrow> ([Validate schema d], Throw t)
      | Return result \<Rightarrow>
          (case result_issues result of
             Some iss \<Rightarrow>
               ([Validate schema d],
                Throw (SchemaValidationError (''Validation failed: '' @ first_issue_message iss) iss))
           | None \<Rightarrow> ([Validate schema d], Return (result_value result))))"

section \<open>errors/base.ts and errors/factory.ts\<close>

text \<open>
  Evaluating the class expression in \<^verbatim>\<open>defineError\<close> allocates a new class each time.
  The runtime is the allocation counter together with the \<^verbatim>\<open>name\<close> property the engine
  gives a class expression that has no binding identifier.
\<close>

record runtime =
  next_class :: nat
  anonymous_class_name :: string

text \<open>
  The class returned by \<^verbatim>\<open>defineError\<close>: its identity, its own \<^verbatim>\<open>name\<close> property,
  the two static fields, and the \<^verbatim>\<open>name\<close> argument its constructor closes over.
\<close>

record api_error_static =
  class_id :: nat
  class_name :: string
  static_statusCode :: int
  static_schema :: standard_schema
  display_name :: "string option"

definition defineError ::
  "runtime \<Rightarrow> int \<Rightarrow> standard_schema \<Rightarrow> string option \<Rightarrow> api_error_static \<times> runtime" where
  "defineError rt sc schema name =
     (\<lparr>class_id = next_class rt,
       class_name = anonymous_class_name rt,
       static_statusCode = sc,
       static_schema = schema,
       display_name = name\<rparr>,
      rt\<lparr>next_class := Suc (next_class rt)\<rparr>)"

text \<open>
  \<^verbatim>\<open>new ErrorClass(message, data, response)\<close>. The base constructor sets
  \<^verbatim>\<open>this.name = this.constructor.name\<close>; the subclass then runs
  \<^verbatim>\<open>if (name) this.name = name\<close>, where an absent name and the empty string are falsy.
\<close>

definition construct :: "api_error_static \<Rightarrow> string \<Rightarrow> json \<Rightarrow> response \<Rightarrow> api_error" where
  "construct E msg d r =
     \<lparr>error_name =
        (case display_name E of
           None \<Rightarrow> class_name E
         | Some n \<Rightarrow> if n = [] then class_name E else n),
      error_message = msg,
      data = d,
      error_response = r,
      statusCode = static_statusCode E,
      constructor_id = class_id E\<rparr>"

text \<open>\<^verbatim>\<open>error instanceof ErrorClass\<close>\<close>

definition instance_of :: "api_error \<Rightarrow> api_error_static \<Rightarrow> bool" where
  "instance_of e E = (constructor_id e = class_id E)"

section \<open>fetcher.ts\<close>

text \<open>The decimal text of an integer, as a template literal prints a status.\<close>

fun digits_of :: "nat \<Rightarrow> string" where
  "digits_of n =
     (if n < 10 then [''0123456789'' ! n]
      else digits_of (n div 10) @ [''0123456789'' ! (n mod 10)])"

definition number_to_string :: "int \<Rightarrow> string" where
  "number_to_string i =
     (if i < 0 then CHR ''-'' # digits_of (nat (- i)) else digits_of (nat i))"

text \<open>\<^verbatim>\<open>`Request failed: ${response.status} ${response.statusText}`\<close>\<close>

definition request_failed :: "response \<Rightarrow> string" where
  "request_failed r =
     ''Request failed: '' @ number_to_string (status r) @ '' '' @ statusText r"

text \<open>\<^verbatim>\<open>error instanceof SchemaValidationError\<close>\<close>

fun is_SchemaValidationError :: "thrown \<Rightarrow> bool" where
  "is_SchemaValidationError (SchemaValidationError m iss) = True"
| "is_SchemaValidationError t = False"

text \<open>
  The \<^verbatim>\<open>try\<close> block of one loop iteration of \<open>handleErrorResponse\<close>: it validates the
  body against the candidate's schema and throws the candidate's instance; so it always
  throws, either that instance or what \<open>validateSchema\<close> threw.
\<close>

definition attempt :: "response \<Rightarrow> json \<Rightarrow> api_error_static \<Rightarrow> event list \<times> thrown" where
  "attempt r d E =
     (case validateSchema (static_schema E) d of
        (lg, Return validatedData) \<Rightarrow>
          (lg, ApiErrorInstance (construct E (statusText r) validatedData r))
      | (lg, Throw t) \<Rightarrow> (lg, t))"

text \<open>
  The loop over the matching classes. The \<^verbatim>\<open>catch\<close> re-throws everything that is not a
  \<open>SchemaValidationError\<close>; \<open>None\<close> means that the loop ran to its end.
\<close>

fun try_candidates ::
  "response \<Rightarrow> json \<Rightarrow> api_error_static list \<Rightarrow> event list \<times> thrown option" where
  "try_candidates r d [] = ([], None)"
| "try_candidates r d (E # Es) =
     (case attempt r d E of
        (lg, t) \<Rightarrow>
          if \<not> is_SchemaValidationError t then (lg, Some t)
          else (case try_candidates r d Es of (lg', res) \<Rightarrow> (lg @ lg', res)))"

definition handleErrorResponse ::
  "response \<Rightarrow> api_error_static list option \<Rightarrow> event list \<times> thrown" where
  "handleErrorResponse r errorTypes =
     (case errorTypes of
        None \<Rightarrow> ([], ErrorObj (request_failed r))
      | Some ets \<Rightarrow>
          if ets = [] then ([], ErrorObj (request_failed r))
          else
            let matchingErrors = filter (\<lambda>E. static_statusCode E = status r) ets in
            if matchingErrors = [] then ([], ErrorObj (request_failed r))
            else
              (case json_result r of
                 Inl _ \<Rightarrow> ([ReadJson], ErrorObj (request_failed r))
               | Inr responseData \<Rightarrow>
                   (case try_candidates r responseData matchingErrors of
                      (lg, Some t) \<Rightarrow> (ReadJson # lg, t)
                    | (lg, None) \<Rightarrow>
                        (ReadJson # lg,
                         ErrorObj (request_failed r @ '' - No matching error schema'')))))"

definition parseResponse ::
  "response \<Rightarrow> standard_schema option \<Rightarrow> event list \<times> json outcome" where
  "parseResponse r schema =
     (if status r = 204 \<or> content_length r = Some ''0'' then ([], Return JNull)
      else
        (case json_result r of
           Inl m \<Rightarrow> ([ReadJson], Throw (ErrorObj m))
         | Inr d \<Rightarrow>
             (case schema of
                None \<Rightarrow> ([ReadJson], Return d)
              | Some s \<Rightarrow>
                  (case validateSchema s d of
                     (lg, Throw (SchemaValidationError m iss)) \<Rightarrow>
                       (ReadJson # lg @ [ConsoleError iss d],
                        Throw (SchemaValidationError m iss))
                   | (lg, res) \<Rightarrow> (ReadJson # lg, res)))))"

text \<open>The two options \<open>fetcher\<close> takes out of \<^verbatim>\<open>init\<close>; the rest goes to \<^verbatim>\<open>fetch\<close>.\<close>

record fetcher_request_init =
  schema :: "standard_schema option"
  errors :: "api_error_static list option"

text \<open>\<^verbatim>\<open>const { schema, errors, ...requestInit } = init || {}\<close>\<close>

definition init_schema :: "fetcher_request_init option \<Rightarrow> standard_schema option" where
  "init_schema init = (case init of None \<Rightarrow> None | Some i \<Rightarrow> schema i)"

definition init_errors :: "fetcher_request_init option \<Rightarrow> api_error_static list option" where
  "init_errors init = (case init of None \<Rightarrow> None | Some i \<Rightarrow> errors i)"

text \<open>
  The \<^verbatim>\<open>catch\<close> block of \<open>fetcher\<close>: what it throws for what it caught. An
  \<^verbatim>\<open>ApiError\<close> is re-thrown, a \<open>SchemaValidationError\<close> and every other error become
  a new \<^verbatim>\<open>Error\<close>; a caught value that is no \<^verbatim>\<open>Error\<close> has the message
  \<^verbatim>\<open>Unknown error\<close>.
\<close>

fun fetcher_catch :: "thrown \<Rightarrow> thrown" where
  "fetcher_catch (ApiErrorInstance e) = ApiErrorInstance e"
| "fetcher_catch (SchemaValidationError m iss) = ErrorObj (''Response validation failed: '' @ m)"
| "fetcher_catch (ErrorObj m) = ErrorObj (''Request failed: '' @ m)"
| "fetcher_catch NonError = ErrorObj ''Request failed: Unknown error''"

text \<open>
  \<open>fetcher\<close>, given what \<^verbatim>\<open>fetch(input, requestInit)\<close> produced. The \<^verbatim>\<open>try\<close> block
  awaits \<^verbatim>\<open>fetch\<close> and \<open>handleErrorResponse\<close>, so what they throw reaches the
  \<^verbatim>\<open>catch\<close> block. It ends with \<^verbatim>\<open>return parseResponse(response, schema)\<close>, without
  \<^verbatim>\<open>await\<close>: the promise of the asynchronous \<open>parseResponse\<close> is handed back as it
  is, the \<^verbatim>\<open>try\<close> block is left, and a rejection of that promise is the rejection of
  \<open>fetcher\<close>'s own promise; the \<^verbatim>\<open>catch\<close> block does not see it.
\<close>

definition fetcher ::
  "response outcome \<Rightarrow> fetcher_request_init option \<Rightarrow> event list \<times> json outcome" where
  "fetcher fetched init =
     (case fetched of
        Throw t \<Rightarrow> ([], Throw (fetcher_catch t))
      | Return r \<Rightarrow>
          if \<not> ok r then
            (case handleErrorResponse r (init_errors init) of
               (lg, t) \<Rightarrow> (lg, Throw (fetcher_catch t)))
          else parseResponse r (init_schema init))"

section \<open>Vocabulary of the properties\<close>

text \<open>
  The classes the loop of \<open>handleErrorResponse\<close> runs over: those of the given list whose
  static status code is the response's status, in the given order; none when no list is
  given.
\<close>

definition candidates :: "response \<Rightarrow> api_error_static list option \<Rightarrow> api_error_static list" where
  "candidates r errorTypes =
     (case errorTypes of
        None \<Rightarrow> []
      | Some ets \<Rightarrow> filter (\<lambda>E. static_statusCode E = status r) ets)"

text \<open>
  A class rejects a body when validating the body against its schema throws a
  \<open>SchemaValidationError\<close>; it accepts the body with \<open>v\<close> when the validation returns \<open>v\<close>.
\<close>

definition rejects :: "api_error_static \<Rightarrow> json \<Rightarrow> bool" where
  "rejects E d =
     (case snd (validateSchema (static_schema E) d) of
        Throw t \<Rightarrow> is_SchemaValidationError t
      | Return v \<Rightarrow> False)"

definition accepts :: "api_error_static \<Rightarrow> json \<Rightarrow> json \<Rightarrow> bool" where
  "accepts E d v = (snd (validateSchema (static_schema E) d) = Return v)"

text \<open>The calls of \<^verbatim>\<open>validate\<close> made for a list of classes, one after the other.\<close>

definition validations :: "json \<Rightarrow> api_error_static list \<Rightarrow> event list" where
  "validations d Es = map (\<lambda>E. Validate (static_schema E) d) Es"

section \<open>Example inputs\<close>

text \<open>
  A schema in the manner of an object schema of a validation library: it accepts an
  object that has the key and returns the object stripped to that key; it answers
  anything else with one issue.
\<close>

definition object_with :: "string \<Rightarrow> standard_schema" where
  "object_with k =
     \<lparr>validate = (\<lambda>d.
        case d of
          JObj kvs \<Rightarrow>
            (case map_of kvs k of
               Some v \<Rightarrow> Return \<lparr>result_issues = None, result_value = JObj [(k, v)]\<rparr>
             | None \<Rightarrow> Return \<lparr>result_issues = Some [\<lparr>message = ''Required''\<rparr>], result_value = JNull\<rparr>)
        | _ \<Rightarrow> Return \<lparr>result_issues = Some [\<lparr>message = ''Expected object''\<rparr>], result_value = JNull\<rparr>)\<rparr>"

text \<open>A schema whose \<^verbatim>\<open>validate\<close> throws a plain error, and one that reports no issue at all.\<close>

definition throwing_schema :: standard_schema where
  "throwing_schema = \<lparr>validate = (\<lambda>d. Throw (ErrorObj ''boom''))\<rparr>"

definition empty_issues_schema :: standard_schema where
  "empty_issues_schema = \<lparr>validate = (\<lambda>d. Return \<lparr>result_issues = Some [], result_value = d\<rparr>)\<rparr>"

definition rt0 :: runtime where
  "rt0 = \<lparr>next_class = 0, anonymous_class_name = []\<rparr>"

definition body_foo :: json where
  "body_foo = JObj [(''foo'', JNum 1), (''extra'', JBool True)]"

definition response_of :: "int \<Rightarrow> string \<Rightarrow> response" where
  "response_of st txt =
     \<lparr>status = st, statusText = txt, content_length = None, json_result = Inr body_foo\<rparr>"

text \<open>
  Three classes defined one after the other, as in the scenario of two classes that share
  the status 400: the body \<open>body_foo\<close> has no key \<open>bar\<close> and has the key \<open>foo\<close>.
\<close>

definition not_found_kind :: api_error_static where
  "not_found_kind = fst (defineError rt0 404 (object_with ''resource'') (Some ''NotFoundError''))"

definition rt1 :: runtime where
  "rt1 = snd (defineError rt0 404 (object_with ''resource'') (Some ''NotFoundError''))"

definition bar_kind :: api_error_static where
  "bar_kind = fst (defineError rt1 400 (object_with ''bar'') None)"

definition rt2 :: runtime where
  "rt2 = snd (defineError rt1 400 (object_with ''bar'') None)"

definition foo_kind :: api_error_static where
  "foo_kind = fst (defineError rt2 400 (object_with ''foo'') (Some ''FooError''))"

definition boom_kind :: api_error_static where
  "boom_kind = fst (defineError rt0 500 throwing_schema None)"

definition accepting_kind :: api_error_static where
  "accepting_kind =
     fst (defineError (snd (defineError rt0 500 throwing_schema None)) 500
            (object_with ''foo'') (Some ''ServerError''))"

definition bad_request :: response where
  "bad_request = response_of 400 ''Bad Request''"

definition server_error :: response where
  "server_error = response_of 500 ''Internal Server Error''"

definition init_kinds :: "fetcher_request_init option" where
  "init_kinds = Some \<lparr>schema = None, errors = Some [not_found_kind, bar_kind, foo_kind]\<rparr>"

definition init_bar :: "fetcher_request_init option" where
  "init_bar = Some \<lparr>schema = None, errors = Some [bar_kind]\<rparr>"

definition no_body :: response where
  "no_body =
     \<lparr>status = 200, statusText = ''OK'', content_length = Some ''0'',
      json_result = Inl ''Unexpected end of JSON input''\<rparr>"

definition init_boom :: "fetcher_request_init option" where
  "init_boom = Some \<lparr>schema = None, errors = Some [boom_kind]\<rparr>"

definition init_boom_first :: "fetcher_request_init option" where
  "init_boom_first = Some \<lparr>schema = None, errors = Some [boom_kind, accepting_kind]\<rparr>"

definition init_id :: "fetcher_request_init option" where
  "init_id = Some \<lparr>schema = Some (object_with ''id''), errors = None\<rparr>"

text \<open>
  A response that is not 2xx whose body is no JSON, and a 2xx response without a body
  whose \<^verbatim>\<open>content-length\<close> header is \<^verbatim>\<open>00\<close>.
\<close>

definition undecodable_bad_request :: response where
  "undecodable_bad_request =
     \<lparr>status = 400, statusText = ''Bad Request'', content_length = None,
      json_result = Inl ''Unexpected token''\<rparr>"

definition padded_zero :: response where
  "padded_zero =
     \<lparr>status = 200, statusText = ''OK'', content_length = Some ''00'',
      json_result = Inl ''Unexpected end of JSON input''\<rparr>"

text \<open>A success schema whose \<^verbatim>\<open>validate\<close> throws an instance of \<open>foo_kind\<close>.\<close>

definition thrown_instance :: api_error where
  "thrown_instance = construct foo_kind ''thrown by the schema'' JNull bad_request"

definition api_throwing_schema :: standard_schema where
  "api_throwing_schema = \<lparr>validate = (\<lambda>d. Throw (ApiErrorInstance thrown_instance))\<rparr>"

definition init_api_throwing :: "fetcher_request_init option" where
  "init_api_throwing = Some \<lparr>schema = Some api_throwing_schema, errors = None\<rparr>"

text \<open>A runtime in which the class expression has been given a name by a bundler.\<close>

definition rt_named :: runtime where
  "rt_named = \<lparr>next_class = 0, anonymous_class_name = ''_a''\<rparr>"

section \<open>Auxiliary facts\<close>

lemmas example_defs =
  ok_def response_of_def candidates_def init_errors_def init_schema_def
  bar_kind_def foo_kind_def not_found_kind_def boom_kind_def rt1_def rt2_def rt0_def rt_named_def
  defineError_def rejects_def accepts_def validateSchema_def object_with_def body_foo_def
  bad_request_def server_error_def init_kinds_def init_bar_def init_boom_def init_id_def
  throwing_schema_def empty_issues_schema_def no_body_def accepting_kind_def
  init_boom_first_def undecodable_bad_request_def padded_zero_def api_throwing_schema_def
  init_api_throwing_def

lemma attempt_log: "fst (attempt r d E) = [Validate (static_schema E) d]"
  by (auto simp: attempt_def validateSchema_def split: outcome.splits option.splits)

lemma rejects_attempt: "rejects E d = is_SchemaValidationError (snd (attempt r d E))"
  by (auto simp: rejects_def attempt_def validateSchema_def split: outcome.splits option.splits)

lemma accepts_attempt:
  "accepts E d v \<Longrightarrow> snd (attempt r d E) = ApiErrorInstance (construct E (statusText r) v r)"
  by (cases "validateSchema (static_schema E) d") (auto simp: accepts_def attempt_def)

lemma accepts_not_rejects: "accepts E d v \<Longrightarrow> \<not> rejects E d"
  by (simp add: accepts_def rejects_def)

lemma throws_attempt:
  "validate (static_schema E) d = Throw t \<Longrightarrow> snd (attempt r d E) = t"
  by (simp add: attempt_def validateSchema_def)

lemma throws_not_rejects:
  "validate (static_schema E) d = Throw t \<Longrightarrow> \<not> is_SchemaValidationError t \<Longrightarrow> \<not> rejects E d"
  by (simp add: rejects_def validateSchema_def)

lemma not_rejects_cases:
  assumes "\<not> rejects E d"
  shows "(\<exists>v. accepts E d v)
       \<or> (\<exists>t. validate (static_schema E) d = Throw t \<and> \<not> is_SchemaValidationError t
              \<and> snd (attempt r d E) = t)"
  using assms
  by (auto simp: rejects_def accepts_def attempt_def validateSchema_def
           split: outcome.splits option.splits)

text \<open>The loop skips the classes that reject and stops at the first one that does not.\<close>

lemma try_candidates_all_reject:
  "\<forall>P\<in>set cs. rejects P d \<Longrightarrow> try_candidates r d cs = (validations d cs, None)"
proof (induction cs)
  case Nil
  show ?case by (simp add: validations_def)
next
  case (Cons E Es)
  obtain t where a: "attempt r d E = ([Validate (static_schema E) d], t)"
    using attempt_log [of r d E] by (cases "attempt r d E") simp
  have "is_SchemaValidationError t"
    using Cons.prems a rejects_attempt [of E d r] by simp
  with a Cons show ?case by (simp add: validations_def)
qed

lemma try_candidates_first:
  assumes "\<forall>P\<in>set pre. rejects P d" and "\<not> rejects E d"
  shows "try_candidates r d (pre @ E # post)
           = (validations d (pre @ [E]), Some (snd (attempt r d E)))"
  using assms(1)
proof (induction pre)
  case Nil
  obtain t where a: "attempt r d E = ([Validate (static_schema E) d], t)"
    using attempt_log [of r d E] by (cases "attempt r d E") simp
  have "\<not> is_SchemaValidationError t"
    using assms(2) a rejects_attempt [of E d r] by simp
  with a show ?case by (simp add: validations_def)
next
  case (Cons P Ps)
  obtain t where a: "attempt r d P = ([Validate (static_schema P) d], t)"
    using attempt_log [of r d P] by (cases "attempt r d P") simp
  have "is_SchemaValidationError t"
    using Cons.prems a rejects_attempt [of P d r] by simp
  with a Cons show ?case by (simp add: validations_def)
qed

lemma candidates_split:
  "(\<forall>P\<in>set cs. rejects P d)
   \<or> (\<exists>pre E post. cs = pre @ E # post \<and> (\<forall>P\<in>set pre. rejects P d) \<and> \<not> rejects E d)"
proof (cases "\<forall>P\<in>set cs. rejects P d")
  case True
  then show ?thesis by simp
next
  case False
  then have "\<exists>x\<in>set cs. \<not> rejects x d" by simp
  from split_list_first_prop [OF this]
  obtain pre E post where "cs = pre @ E # post" "\<not> rejects E d" "\<forall>P\<in>set pre. \<not> \<not> rejects P d"
    by blast
  then show ?thesis by auto
qed

lemma candidates_status: "E \<in> set (candidates r errs) \<Longrightarrow> static_statusCode E = status r"
  by (cases errs) (auto simp: candidates_def)

lemma handleErrorResponse_none:
  "candidates r errs = [] \<Longrightarrow> handleErrorResponse r errs = ([], ErrorObj (request_failed r))"
  by (cases errs) (simp_all add: handleErrorResponse_def candidates_def)

lemma handleErrorResponse_some:
  "candidates r errs \<noteq> [] \<Longrightarrow>
   handleErrorResponse r errs =
     (case json_result r of
        Inl m \<Rightarrow> ([ReadJson], ErrorObj (request_failed r))
      | Inr d \<Rightarrow>
          (case try_candidates r d (candidates r errs) of
             (lg, Some t) \<Rightarrow> (ReadJson # lg, t)
           | (lg, None) \<Rightarrow>
               (ReadJson # lg, ErrorObj (request_failed r @ '' - No matching error schema''))))"
  by (cases errs) (auto simp: handleErrorResponse_def candidates_def Let_def split: sum.splits)

lemma handleErrorResponse_undecodable:
  "candidates r errs \<noteq> [] \<Longrightarrow> json_result r = Inl m \<Longrightarrow>
   handleErrorResponse r errs = ([ReadJson], ErrorObj (request_failed r))"
  by (simp add: handleErrorResponse_some)

lemma handleErrorResponse_all_reject:
  "candidates r errs \<noteq> [] \<Longrightarrow> json_result r = Inr d \<Longrightarrow>
   \<forall>P\<in>set (candidates r errs). rejects P d \<Longrightarrow>
   handleErrorResponse r errs =
     (ReadJson # validations d (candidates r errs),
      ErrorObj (request_failed r @ '' - No matching error schema''))"
  by (simp add: handleErrorResponse_some try_candidates_all_reject)

lemma handleErrorResponse_first:
  assumes "json_result r = Inr d" "candidates r errs = pre @ E # post"
    "\<forall>P\<in>set pre. rejects P d" "\<not> rejects E d"
  shows "handleErrorResponse r errs = (ReadJson # validations d (pre @ [E]), snd (attempt r d E))"
proof -
  have "candidates r errs \<noteq> []" using assms(2) by simp
  then show ?thesis
    using assms(1) assms(2) try_candidates_first [OF assms(3) assms(4), of r post]
    by (simp add: handleErrorResponse_some)
qed

lemma fetcher_not_ok:
  "\<not> ok r \<Longrightarrow>
   fetcher (Return r) init =
     (fst (handleErrorResponse r (init_errors init)),
      Throw (fetcher_catch (snd (handleErrorResponse r (init_errors init)))))"
  by (simp add: fetcher_def split: prod.splits)

lemma status_in_message:
  "sublist (number_to_string (status r)) (''Request failed: '' @ request_failed r @ rest)"
proof -
  have "''Request failed: '' @ request_failed r @ rest
          = (''Request failed: '' @ ''Request failed: '') @ number_to_string (status r)
            @ ('' '' @ statusText r @ rest)"
    by (simp add: request_failed_def)
  then show ?thesis by (simp only: sublist_appendI)
qed

lemma fetcher_catch_generic:
  "(\<exists>m. fetcher_catch t = ErrorObj m) \<longleftrightarrow> (\<forall>e. t \<noteq> ApiErrorInstance e)"
  by (cases t) simp_all

section \<open>Properties\<close>

subsection \<open>C1: ordered first match\<close>

text \<open>
  C1. For a response that is not 2xx whose body decodes, the loop runs over the classes
  whose status code is the response's, in the order given. When the classes before \<open>E\<close>
  in that list reject the body and \<open>E\<close> accepts it, \<open>fetcher\<close> throws \<open>E\<close>'s instance, and
  the schemas called are those of the rejecting classes and of \<open>E\<close>, in order, and no
  schema of a later class. The instance is an instance of \<open>E\<close> and of no earlier class.
\<close>

theorem first_match:
  assumes "\<not> ok r" and "json_result r = Inr d"
    and "candidates r (init_errors init) = pre @ E # post"
    and "\<forall>P\<in>set pre. rejects P d" and "accepts E d v"
  shows "fetcher (Return r) init
           = (ReadJson # validations d (pre @ [E]),
              Throw (ApiErrorInstance (construct E (statusText r) v r)))
       \<and> instance_of (construct E (statusText r) v r) E
       \<and> (\<forall>P\<in>set pre. class_id P \<noteq> class_id E
            \<longrightarrow> \<not> instance_of (construct E (statusText r) v r) P)"
proof -
  have "handleErrorResponse r (init_errors init)
          = (ReadJson # validations d (pre @ [E]),
             ApiErrorInstance (construct E (statusText r) v r))"
    using handleErrorResponse_first [OF assms(2) assms(3) assms(4) accepts_not_rejects [OF assms(5)]]
      accepts_attempt [OF assms(5)] by simp
  then show ?thesis
    using assms(1) by (simp add: fetcher_not_ok instance_of_def construct_def)
qed

text \<open>
  The scenario of the two classes that share the status 400, after a class for 404: only
  the second accepts the body, and the error thrown is an instance of the second and not
  of the first.
\<close>

theorem first_match_witness:
  "\<not> ok bad_request
   \<and> candidates bad_request (init_errors init_kinds) = [bar_kind, foo_kind]
   \<and> rejects bar_kind body_foo
   \<and> accepts foo_kind body_foo (JObj [(''foo'', JNum 1)])
   \<and> fetcher (Return bad_request) init_kinds
       = (ReadJson # validations body_foo [bar_kind, foo_kind],
          Throw (ApiErrorInstance
                   (construct foo_kind ''Bad Request'' (JObj [(''foo'', JNum 1)]) bad_request)))
   \<and> instance_of (construct foo_kind ''Bad Request'' (JObj [(''foo'', JNum 1)]) bad_request) foo_kind
   \<and> \<not> instance_of (construct foo_kind ''Bad Request'' (JObj [(''foo'', JNum 1)]) bad_request) bar_kind"
proof -
  have h1: "\<not> ok bad_request" by (simp add: example_defs)
  have h2: "json_result bad_request = Inr body_foo" by (simp add: example_defs)
  have h3: "candidates bad_request (init_errors init_kinds) = [bar_kind] @ foo_kind # []"
    by (simp add: example_defs)
  have h4: "\<forall>P\<in>set [bar_kind]. rejects P body_foo" by (simp add: example_defs)
  have h5: "accepts foo_kind body_foo (JObj [(''foo'', JNum 1)])" by (simp add: example_defs)
  have h6: "class_id bar_kind \<noteq> class_id foo_kind" by (simp add: example_defs)
  have h7: "statusText bad_request = ''Bad Request''" by (simp add: example_defs)
  from first_match [OF h1 h2 h3 h4 h5] h1 h3 h4 h5 h6 h7 show ?thesis by simp
qed

subsection \<open>C2: a rejecting success schema\<close>

text \<open>
  C2. For a 2xx response that is not the no-body case and whose body decodes, with a
  success schema that answers the body with a non-empty list of issues, \<open>fetcher\<close> throws
  the \<open>SchemaValidationError\<close> that \<open>validateSchema\<close> threw, unchanged, and the list it
  carries is that non-empty list. (The rejection comes out of the promise that
  \<open>fetcher\<close> returns without awaiting, so \<open>fetcher_catch\<close> does not apply to it.)
\<close>

theorem success_rejection_propagates:
  assumes "ok r" and "status r \<noteq> 204" and "content_length r \<noteq> Some ''0''"
    and "json_result r = Inr d" and "init_schema init = Some s"
    and "validate s d = Return res" and "result_issues res = Some iss" and "iss \<noteq> []"
  shows "fetcher (Return r) init
           = ([ReadJson, Validate s d, ConsoleError iss d],
              Throw (SchemaValidationError (''Validation failed: '' @ first_issue_message iss) iss))
       \<and> snd (fetcher (Return r) init) = snd (validateSchema s d)
       \<and> iss \<noteq> []"
  using assms by (simp add: fetcher_def parseResponse_def validateSchema_def)

theorem success_rejection_propagates_witness:
  "ok (response_of 200 ''OK'')
   \<and> validate (object_with ''id'') body_foo
       = Return \<lparr>result_issues = Some [\<lparr>message = ''Required''\<rparr>], result_value = JNull\<rparr>
   \<and> fetcher (Return (response_of 200 ''OK'')) init_id
       = ([ReadJson, Validate (object_with ''id'') body_foo,
           ConsoleError [\<lparr>message = ''Required''\<rparr>] body_foo],
          Throw (SchemaValidationError ''Validation failed: Required'' [\<lparr>message = ''Required''\<rparr>]))"
proof -
  let ?r = "response_of 200 ''OK''"
  let ?res = "\<lparr>result_issues = Some [\<lparr>message = ''Required''\<rparr>], result_value = JNull\<rparr>"
  have h1: "ok ?r" by (simp add: example_defs)
  have h2: "status ?r \<noteq> 204" by (simp add: example_defs)
  have h3: "content_length ?r \<noteq> Some ''0''" by (simp add: example_defs)
  have h4: "json_result ?r = Inr body_foo" by (simp add: example_defs)
  have h5: "init_schema init_id = Some (object_with ''id'')" by (simp add: example_defs)
  have h6: "validate (object_with ''id'') body_foo = Return ?res" by (simp add: example_defs)
  have h7: "result_issues ?res = Some [\<lparr>message = ''Required''\<rparr>]" by simp
  have h8: "[\<lparr>message = ''Required''\<rparr>] \<noteq> []" by simp
  from success_rejection_propagates [OF h1 h2 h3 h4 h5 h6 h7 h8] h1 h6 show ?thesis
    by (simp add: first_issue_message_def)
qed

subsection \<open>C3: the generic failure\<close>

text \<open>
  C3, as stated, says that a response that is not 2xx ends in the generic failure exactly
  when there are no classes, no class has the status, the body does not decode, or every
  class with the status rejects the body. The "only when" half fails: a class whose
  schema throws a plain error also ends in a generic \<open>Request failed\<close> error, whose
  message does not contain the status.
\<close>

theorem generic_failure_counterexample:
  "\<not> ok server_error
   \<and> init_errors init_boom = Some [boom_kind]
   \<and> candidates server_error (init_errors init_boom) = [boom_kind]
   \<and> json_result server_error = Inr body_foo
   \<and> \<not> rejects boom_kind body_foo
   \<and> snd (fetcher (Return server_error) init_boom) = Throw (ErrorObj ''Request failed: boom'')
   \<and> \<not> sublist (number_to_string (status server_error)) ''Request failed: boom''"
proof -
  have n: "number_to_string (status server_error) = ''500''"
    by (simp add: number_to_string_def example_defs)
  have s: "\<not> sublist ''500'' ''Request failed: boom''" by code_simp
  have f: "snd (fetcher (Return server_error) init_boom) = Throw (ErrorObj ''Request failed: boom'')"
    by (simp add: fetcher_def handleErrorResponse_def attempt_def example_defs)
  show ?thesis using n s f by (simp add: example_defs)
qed

text \<open>
  Which errors \<open>fetcher\<close> throws for a response that is not 2xx, by the case the
  response and the classes are in.
\<close>

lemma generic_failure_outcomes:
  assumes "\<not> ok r"
  shows "(init_errors init = None \<or> init_errors init = Some []
            \<longrightarrow> candidates r (init_errors init) = [])
       \<and> (candidates r (init_errors init) = [] \<or> (\<exists>m. json_result r = Inl m)
            \<longrightarrow> snd (fetcher (Return r) init)
                  = Throw (ErrorObj (''Request failed: '' @ request_failed r)))
       \<and> (\<forall>d. candidates r (init_errors init) \<noteq> [] \<and> json_result r = Inr d
                \<and> (\<forall>E\<in>set (candidates r (init_errors init)). rejects E d)
            \<longrightarrow> snd (fetcher (Return r) init)
                  = Throw (ErrorObj (''Request failed: '' @ request_failed r
                                     @ '' - No matching error schema'')))
       \<and> sublist (number_to_string (status r)) (''Request failed: '' @ request_failed r)
       \<and> sublist (number_to_string (status r))
            (''Request failed: '' @ request_failed r @ '' - No matching error schema'')
       \<and> ((\<exists>m. snd (fetcher (Return r) init) = Throw (ErrorObj m)) \<longleftrightarrow>
            candidates r (init_errors init) = []
            \<or> (\<exists>m. json_result r = Inl m)
            \<or> (\<exists>d. json_result r = Inr d
                  \<and> ((\<forall>E\<in>set (candidates r (init_errors init)). rejects E d)
                     \<or> (\<exists>pre E post t.
                           candidates r (init_errors init) = pre @ E # post
                           \<and> (\<forall>P\<in>set pre. rejects P d)
                           \<and> validate (static_schema E) d = Throw t
                           \<and> \<not> is_SchemaValidationError t
                           \<and> (\<forall>e. t \<noteq> ApiErrorInstance e)))))"
    (is "?A \<and> ?B \<and> ?C \<and> ?D \<and> ?E \<and> ?F")
proof -
  let ?cs = "candidates r (init_errors init)"
  let ?out = "snd (fetcher (Return r) init)"
  have out: "?out = Throw (fetcher_catch (snd (handleErrorResponse r (init_errors init))))"
    using assms by (simp add: fetcher_not_ok)
  have A: ?A by (auto simp: candidates_def)
  have B1: "?out = Throw (ErrorObj (''Request failed: '' @ request_failed r))" if "?cs = []"
    using that out by (simp add: handleErrorResponse_none)
  have B2: "?out = Throw (ErrorObj (''Request failed: '' @ request_failed r))"
    if "json_result r = Inl m" for m
  proof (cases "?cs = []")
    case True
    then show ?thesis by (rule B1)
  next
    case False
    then show ?thesis using that out by (simp add: handleErrorResponse_undecodable)
  qed
  have B: ?B using B1 B2 by blast
  have C1: "?out = Throw (ErrorObj (''Request failed: '' @ request_failed r
                                     @ '' - No matching error schema''))"
    if "?cs \<noteq> []" "json_result r = Inr d" "\<forall>E\<in>set ?cs. rejects E d" for d
    using out handleErrorResponse_all_reject [OF that] by simp
  have C: ?C using C1 by blast
  have D: ?D using status_in_message [of r "[]"] by simp
  have E: ?E by (rule status_in_message)
  have F1: "\<exists>m. ?out = Throw (ErrorObj m)"
    if "?cs = pre @ E # post" "\<forall>P\<in>set pre. rejects P d" "json_result r = Inr d"
       "validate (static_schema E) d = Throw t" "\<not> is_SchemaValidationError t"
       "\<forall>e. t \<noteq> ApiErrorInstance e" for pre E post t d
  proof -
    have "handleErrorResponse r (init_errors init) = (ReadJson # validations d (pre @ [E]), t)"
      using handleErrorResponse_first
        [OF that(3) that(1) that(2) throws_not_rejects [OF that(4) that(5)]]
        throws_attempt [OF that(4)] by simp
    then have "?out = Throw (fetcher_catch t)" using out by simp
    then show ?thesis using that(6) fetcher_catch_generic [of t] by simp
  qed
  have F2: "?cs = [] \<or> (\<exists>m. json_result r = Inl m)
            \<or> (\<exists>d. json_result r = Inr d
                  \<and> ((\<forall>E\<in>set ?cs. rejects E d)
                     \<or> (\<exists>pre E post t.
                           ?cs = pre @ E # post
                           \<and> (\<forall>P\<in>set pre. rejects P d)
                           \<and> validate (static_schema E) d = Throw t
                           \<and> \<not> is_SchemaValidationError t
                           \<and> (\<forall>e. t \<noteq> ApiErrorInstance e))))"
    if g: "?out = Throw (ErrorObj m)" for m
  proof (cases "json_result r")
    case (Inl a)
    then show ?thesis by blast
  next
    case (Inr d)
    show ?thesis
    proof (cases "\<forall>E\<in>set ?cs. rejects E d")
      case True
      with Inr show ?thesis by blast
    next
      case False
      with candidates_split [of ?cs d]
      obtain pre E post where sp: "?cs = pre @ E # post" "\<forall>P\<in>set pre. rejects P d" "\<not> rejects E d"
        by blast
      have h: "handleErrorResponse r (init_errors init)
                 = (ReadJson # validations d (pre @ [E]), snd (attempt r d E))"
        by (rule handleErrorResponse_first [OF Inr sp])
      from not_rejects_cases [OF sp(3), of r]
      show ?thesis
      proof
        assume "\<exists>v. accepts E d v"
        then obtain v where "accepts E d v" ..
        then have "snd (attempt r d E) = ApiErrorInstance (construct E (statusText r) v r)"
          by (rule accepts_attempt)
        with h out g show ?thesis by simp
      next
        assume "\<exists>t. validate (static_schema E) d = Throw t \<and> \<not> is_SchemaValidationError t
                  \<and> snd (attempt r d E) = t"
        then obtain t where t: "validate (static_schema E) d = Throw t"
          "\<not> is_SchemaValidationError t" "snd (attempt r d E) = t" by blast
        have "fetcher_catch t = ErrorObj m" using h out g t(3) by simp
        then have "\<forall>e. t \<noteq> ApiErrorInstance e" using fetcher_catch_generic [of t] by blast
        with Inr sp t show ?thesis by blast
      qed
    qed
  qed
  have F: ?F
  proof
    assume "\<exists>m. ?out = Throw (ErrorObj m)"
    then show "?cs = [] \<or> (\<exists>m. json_result r = Inl m)
            \<or> (\<exists>d. json_result r = Inr d
                  \<and> ((\<forall>E\<in>set ?cs. rejects E d)
                     \<or> (\<exists>pre E post t.
                           ?cs = pre @ E # post
                           \<and> (\<forall>P\<in>set pre. rejects P d)
                           \<and> validate (static_schema E) d = Throw t
                           \<and> \<not> is_SchemaValidationError t
                           \<and> (\<forall>e. t \<noteq> ApiErrorInstance e))))"
      using F2 by blast
  next
    assume a: "?cs = [] \<or> (\<exists>m. json_result r = Inl m)
            \<or> (\<exists>d. json_result r = Inr d
                  \<and> ((\<forall>E\<in>set ?cs. rejects E d)
                     \<or> (\<exists>pre E post t.
                           ?cs = pre @ E # post
                           \<and> (\<forall>P\<in>set pre. rejects P d)
                           \<and> validate (static_schema E) d = Throw t
                           \<and> \<not> is_SchemaValidationError t
                           \<and> (\<forall>e. t \<noteq> ApiErrorInstance e))))"
    show "\<exists>m. ?out = Throw (ErrorObj m)"
    proof (cases "?cs = [] \<or> (\<exists>m. json_result r = Inl m)")
      case True
      then show ?thesis using B by blast
    next
      case False
      with a obtain d where d: "json_result r = Inr d"
        and alt: "(\<forall>E\<in>set ?cs. rejects E d)
                     \<or> (\<exists>pre E post t.
                           ?cs = pre @ E # post
                           \<and> (\<forall>P\<in>set pre. rejects P d)
                           \<and> validate (static_schema E) d = Throw t
                           \<and> \<not> is_SchemaValidationError t
                           \<and> (\<forall>e. t \<noteq> ApiErrorInstance e))" by blast
      from alt show ?thesis
      proof
        assume "\<forall>E\<in>set ?cs. rejects E d"
        with False d C1 show ?thesis by blast
      next
        assume "\<exists>pre E post t.
                           ?cs = pre @ E # post
                           \<and> (\<forall>P\<in>set pre. rejects P d)
                           \<and> validate (static_schema E) d = Throw t
                           \<and> \<not> is_SchemaValidationError t
                           \<and> (\<forall>e. t \<noteq> ApiErrorInstance e)"
        then show ?thesis using F1 d by blast
      qed
    qed
  qed
  show ?thesis using A B C D E F by blast
qed

text \<open>
  C3, amended. For a response that is not 2xx, \<open>fetcher\<close> throws the generic error whose
  message is \<open>Request failed: \<close> followed by \<open>request_failed r\<close>, which contains the
  status,
  \<^item> without reading the body, when there is no list of classes, the list is empty or
    no class has the response's status;
  \<^item> after reading the body and without calling any schema, when the body does not
    decode;
  \<^item> with \<open> - No matching error schema\<close> appended, after calling the schema of every
    class of that status in order, when all of them reject the decoded body.
  The error thrown is generic (an \<open>ErrorObj\<close>, not a class instance) exactly in those
  cases and in one more: the first class that does not reject has a schema whose
  \<^verbatim>\<open>validate\<close> throws something that is neither a \<open>SchemaValidationError\<close> nor an
  \<^verbatim>\<open>ApiError\<close>. Then no later schema is called and the message is
  \<open>Request failed: \<close> followed by the message of the error thrown, or by
  \<open>Unknown error\<close> when what was thrown is no \<^verbatim>\<open>Error\<close>; it need not contain the
  status.
\<close>

theorem generic_failure_cases:
  assumes "\<not> ok r"
  shows "(init_errors init = None \<or> init_errors init = Some []
            \<longrightarrow> candidates r (init_errors init) = [])
       \<and> (candidates r (init_errors init) = []
            \<longrightarrow> fetcher (Return r) init
                  = ([], Throw (ErrorObj (''Request failed: '' @ request_failed r))))
       \<and> (\<forall>m. candidates r (init_errors init) \<noteq> [] \<and> json_result r = Inl m
            \<longrightarrow> fetcher (Return r) init
                  = ([ReadJson], Throw (ErrorObj (''Request failed: '' @ request_failed r))))
       \<and> (\<forall>d. candidates r (init_errors init) \<noteq> [] \<and> json_result r = Inr d
                \<and> (\<forall>E\<in>set (candidates r (init_errors init)). rejects E d)
            \<longrightarrow> fetcher (Return r) init
                  = (ReadJson # validations d (candidates r (init_errors init)),
                     Throw (ErrorObj (''Request failed: '' @ request_failed r
                                      @ '' - No matching error schema''))))
       \<and> (\<forall>d pre E post m.
              json_result r = Inr d \<and> candidates r (init_errors init) = pre @ E # post
              \<and> (\<forall>P\<in>set pre. rejects P d)
              \<and> validate (static_schema E) d = Throw (ErrorObj m)
            \<longrightarrow> fetcher (Return r) init
                  = (ReadJson # validations d (pre @ [E]),
                     Throw (ErrorObj (''Request failed: '' @ m))))
       \<and> (\<forall>d pre E post.
              json_result r = Inr d \<and> candidates r (init_errors init) = pre @ E # post
              \<and> (\<forall>P\<in>set pre. rejects P d)
              \<and> validate (static_schema E) d = Throw NonError
            \<longrightarrow> fetcher (Return r) init
                  = (ReadJson # validations d (pre @ [E]),
                     Throw (ErrorObj ''Request failed: Unknown error'')))
       \<and> sublist (number_to_string (status r)) (''Request failed: '' @ request_failed r)
       \<and> sublist (number_to_string (status r))
            (''Request failed: '' @ request_failed r @ '' - No matching error schema'')
       \<and> ((\<exists>m. snd (fetcher (Return r) init) = Throw (ErrorObj m)) \<longleftrightarrow>
            candidates r (init_errors init) = []
            \<or> (\<exists>m. json_result r = Inl m)
            \<or> (\<exists>d. json_result r = Inr d
                  \<and> ((\<forall>E\<in>set (candidates r (init_errors init)). rejects E d)
                     \<or> (\<exists>pre E post t.
                           candidates r (init_errors init) = pre @ E # post
                           \<and> (\<forall>P\<in>set pre. rejects P d)
                           \<and> validate (static_schema E) d = Throw t
                           \<and> (t = NonError \<or> (\<exists>m. t = ErrorObj m))))))"
proof -
  let ?cs = "candidates r (init_errors init)"
  have f: "fetcher (Return r) init =
     (fst (handleErrorResponse r (init_errors init)),
      Throw (fetcher_catch (snd (handleErrorResponse r (init_errors init)))))"
    using assms by (rule fetcher_not_ok)
  have 1: "fetcher (Return r) init
             = ([], Throw (ErrorObj (''Request failed: '' @ request_failed r)))"
    if "?cs = []"
    using f handleErrorResponse_none [OF that] by simp
  have 2: "fetcher (Return r) init
             = ([ReadJson], Throw (ErrorObj (''Request failed: '' @ request_failed r)))"
    if "?cs \<noteq> []" "json_result r = Inl m" for m
    using f handleErrorResponse_undecodable [OF that] by simp
  have 3: "fetcher (Return r) init
             = (ReadJson # validations d ?cs,
                Throw (ErrorObj (''Request failed: '' @ request_failed r
                                 @ '' - No matching error schema'')))"
    if "?cs \<noteq> []" "json_result r = Inr d" "\<forall>E\<in>set ?cs. rejects E d" for d
    using f handleErrorResponse_all_reject [OF that] by simp
  have 4: "fetcher (Return r) init
             = (ReadJson # validations d (pre @ [E]), Throw (fetcher_catch t))"
    if "json_result r = Inr d" "?cs = pre @ E # post" "\<forall>P\<in>set pre. rejects P d"
       "validate (static_schema E) d = Throw t" "\<not> is_SchemaValidationError t"
    for d pre E post t
    using f handleErrorResponse_first
        [OF that(1) that(2) that(3) throws_not_rejects [OF that(4) that(5)]]
      throws_attempt [OF that(4)] by simp
  have 5: "fetcher (Return r) init
             = (ReadJson # validations d (pre @ [E]), Throw (ErrorObj (''Request failed: '' @ m)))"
    if "json_result r = Inr d" "?cs = pre @ E # post" "\<forall>P\<in>set pre. rejects P d"
       "validate (static_schema E) d = Throw (ErrorObj m)" for d pre E post m
    using 4 [OF that] by simp
  have 6: "fetcher (Return r) init
             = (ReadJson # validations d (pre @ [E]),
                Throw (ErrorObj ''Request failed: Unknown error''))"
    if "json_result r = Inr d" "?cs = pre @ E # post" "\<forall>P\<in>set pre. rejects P d"
       "validate (static_schema E) d = Throw NonError" for d pre E post
    using 4 [OF that] by simp
  have t: "(\<not> is_SchemaValidationError t \<and> (\<forall>e. t \<noteq> ApiErrorInstance e))
             \<longleftrightarrow> (t = NonError \<or> (\<exists>m. t = ErrorObj m))" for t
    by (cases t) simp_all
  have 7: "init_errors init = None \<or> init_errors init = Some [] \<longrightarrow> ?cs = []"
    by (auto simp: candidates_def)
  have 8: "sublist (number_to_string (status r)) (''Request failed: '' @ request_failed r)"
    using status_in_message [of r "[]"] by simp
  have 9: "sublist (number_to_string (status r))
            (''Request failed: '' @ request_failed r @ '' - No matching error schema'')"
    by (rule status_in_message)
  have 10: "(\<exists>m. snd (fetcher (Return r) init) = Throw (ErrorObj m)) \<longleftrightarrow>
            ?cs = []
            \<or> (\<exists>m. json_result r = Inl m)
            \<or> (\<exists>d. json_result r = Inr d
                  \<and> ((\<forall>E\<in>set ?cs. rejects E d)
                     \<or> (\<exists>pre E post t.
                           ?cs = pre @ E # post
                           \<and> (\<forall>P\<in>set pre. rejects P d)
                           \<and> validate (static_schema E) d = Throw t
                           \<and> (t = NonError \<or> (\<exists>m. t = ErrorObj m)))))"
  proof -
    have "(\<exists>m. snd (fetcher (Return r) init) = Throw (ErrorObj m)) \<longleftrightarrow>
            ?cs = []
            \<or> (\<exists>m. json_result r = Inl m)
            \<or> (\<exists>d. json_result r = Inr d
                  \<and> ((\<forall>E\<in>set ?cs. rejects E d)
                     \<or> (\<exists>pre E post t.
                           ?cs = pre @ E # post
                           \<and> (\<forall>P\<in>set pre. rejects P d)
                           \<and> validate (static_schema E) d = Throw t
                           \<and> \<not> is_SchemaValidationError t
                           \<and> (\<forall>e. t \<noteq> ApiErrorInstance e))))"
      using generic_failure_outcomes [OF assms, of init] by blast
    then show ?thesis using t by simp
  qed
  show ?thesis
    using 1 2 3 5 6 7 8 9 10 by (intro conjI allI impI) (blast | assumption)+
qed

text \<open>
  A status 500 against classes for 404 and 400 (no class has the status), a status 400
  against one class for 400 that rejects the body, and a status 400 with a body that is
  no JSON.
\<close>

theorem generic_failure_cases_witness:
  "\<not> ok server_error
   \<and> candidates server_error (init_errors init_kinds) = []
   \<and> fetcher (Return server_error) init_kinds
       = ([], Throw (ErrorObj ''Request failed: Request failed: 500 Internal Server Error''))
   \<and> sublist ''500'' ''Request failed: Request failed: 500 Internal Server Error''
   \<and> \<not> ok bad_request
   \<and> candidates bad_request (init_errors init_bar) = [bar_kind]
   \<and> rejects bar_kind body_foo
   \<and> fetcher (Return bad_request) init_bar
       = ([ReadJson, Validate (static_schema bar_kind) body_foo],
          Throw (ErrorObj
            ''Request failed: Request failed: 400 Bad Request - No matching error schema''))
   \<and> \<not> ok undecodable_bad_request
   \<and> candidates undecodable_bad_request (init_errors init_bar) = [bar_kind]
   \<and> fetcher (Return undecodable_bad_request) init_bar
       = ([ReadJson], Throw (ErrorObj ''Request failed: Request failed: 400 Bad Request''))"
proof -
  have h1: "\<not> ok server_error" by (simp add: example_defs)
  have h2: "candidates server_error (init_errors init_kinds) = []" by (simp add: example_defs)
  have n: "number_to_string (status server_error) = ''500''"
    by (simp add: number_to_string_def example_defs)
  have m: "request_failed server_error = ''Request failed: 500 Internal Server Error''"
    using n by (simp add: request_failed_def) (simp add: example_defs)
  have k1: "\<not> ok bad_request" by (simp add: example_defs)
  have k2: "candidates bad_request (init_errors init_bar) = [bar_kind]"
    by (simp add: example_defs)
  have k3: "json_result bad_request = Inr body_foo" by (simp add: example_defs)
  have k4: "rejects bar_kind body_foo" by (simp add: example_defs)
  have n': "number_to_string (status bad_request) = ''400''"
    by (simp add: number_to_string_def example_defs)
  have m': "request_failed bad_request = ''Request failed: 400 Bad Request''"
    using n' by (simp add: request_failed_def) (simp add: example_defs)
  have u1: "\<not> ok undecodable_bad_request" by (simp add: example_defs)
  have u2: "candidates undecodable_bad_request (init_errors init_bar) = [bar_kind]"
    by (simp add: example_defs)
  have u3: "json_result undecodable_bad_request = Inl ''Unexpected token''"
    by (simp add: example_defs)
  have u4: "number_to_string (status undecodable_bad_request) = ''400''"
    by (simp add: number_to_string_def example_defs)
  have u5: "request_failed undecodable_bad_request = ''Request failed: 400 Bad Request''"
    using u4 by (simp add: request_failed_def) (simp add: example_defs)
  from generic_failure_cases [OF h1, of init_kinds] generic_failure_cases [OF k1, of init_bar]
    generic_failure_cases [OF u1, of init_bar]
    h1 h2 n m k1 k2 k3 k4 m' u1 u2 u3 u5
  show ?thesis by (simp add: validations_def)
qed

subsection \<open>C4: no content\<close>

text \<open>
  C4, as stated, takes every \<^verbatim>\<open>content-length\<close> header that equals zero. The program
  compares the header's text with \<^verbatim>\<open>'0'\<close>: for a 2xx response without a body whose
  header is \<^verbatim>\<open>00\<close> it reads the body, and the decoding error is what \<open>fetcher\<close>
  throws.
\<close>

theorem no_content_counterexample:
  "ok padded_zero
   \<and> content_length padded_zero = Some ''00''
   \<and> fetcher (Return padded_zero) init_id
       = ([ReadJson], Throw (ErrorObj ''Unexpected end of JSON input''))"
  by (simp add: fetcher_def parseResponse_def ok_def padded_zero_def)

text \<open>
  C4, amended. For a 2xx response whose status is 204 or whose \<^verbatim>\<open>content-length\<close>
  header is present and is exactly the text \<open>0\<close>, \<open>fetcher\<close> returns null; nothing is
  logged, so the body is not read and no schema is called, whatever \<^verbatim>\<open>init\<close> holds.
\<close>

theorem no_content_null:
  assumes "ok r" and "status r = 204 \<or> content_length r = Some ''0''"
  shows "fetcher (Return r) init = ([], Return JNull)"
  using assms by (auto simp: fetcher_def parseResponse_def)

text \<open>A status 200 with \<^verbatim>\<open>content-length: 0\<close>, an undecodable body and a schema.\<close>

theorem no_content_null_witness:
  "ok no_body
   \<and> content_length no_body = Some ''0''
   \<and> init_schema init_id = Some (object_with ''id'')
   \<and> fetcher (Return no_body) init_id = ([], Return JNull)"
proof -
  have h1: "ok no_body" by (simp add: ok_def no_body_def)
  have h2: "status no_body = 204 \<or> content_length no_body = Some ''0''"
    by (simp add: no_body_def)
  have h3: "init_schema init_id = Some (object_with ''id'')"
    by (simp add: init_schema_def init_id_def)
  from no_content_null [OF h1 h2, of init_id] h1 h2 h3 show ?thesis
    by (simp add: no_body_def)
qed

subsection \<open>C5: the fields of the typed error\<close>

text \<open>
  C5. Under the conditions of C1 (the class \<open>E\<close> is the first of the response's status
  that does not reject, and it accepts the body with \<open>v\<close>), what \<open>fetcher\<close> throws is an
  instance of \<open>E\<close> whose data is \<open>v\<close>, whose status code is the response's status, whose
  message is the response's status text and whose response is the response itself.
\<close>

theorem typed_error_fields:
  assumes "\<not> ok r" and "json_result r = Inr d"
    and "candidates r (init_errors init) = pre @ E # post"
    and "\<forall>P\<in>set pre. rejects P d" and "accepts E d v"
  shows "\<exists>e. snd (fetcher (Return r) init) = Throw (ApiErrorInstance e)
           \<and> instance_of e E \<and> data e = v \<and> statusCode e = status r
           \<and> error_message e = statusText r \<and> error_response e = r"
proof -
  have "E \<in> set (candidates r (init_errors init))" using assms(3) by simp
  then have st: "static_statusCode E = status r" by (rule candidates_status)
  have "handleErrorResponse r (init_errors init)
          = (ReadJson # validations d (pre @ [E]),
             ApiErrorInstance (construct E (statusText r) v r))"
    using handleErrorResponse_first [OF assms(2) assms(3) assms(4) accepts_not_rejects [OF assms(5)]]
      accepts_attempt [OF assms(5)] by simp
  then have "snd (fetcher (Return r) init)
               = Throw (ApiErrorInstance (construct E (statusText r) v r))"
    using assms(1) by (simp add: fetcher_not_ok)
  then show ?thesis
    using st by (simp add: instance_of_def construct_def)
qed

text \<open>The data is the schema's output (the object stripped to its key), not the raw body.\<close>

theorem typed_error_fields_witness:
  "\<not> ok bad_request
   \<and> candidates bad_request (init_errors init_kinds) = [bar_kind, foo_kind]
   \<and> rejects bar_kind body_foo
   \<and> accepts foo_kind body_foo (JObj [(''foo'', JNum 1)])
   \<and> (\<exists>e. snd (fetcher (Return bad_request) init_kinds) = Throw (ApiErrorInstance e)
          \<and> instance_of e foo_kind \<and> data e = JObj [(''foo'', JNum 1)] \<and> statusCode e = 400
          \<and> error_message e = ''Bad Request'' \<and> error_response e = bad_request)"
proof -
  have h1: "\<not> ok bad_request" by (simp add: example_defs)
  have h2: "json_result bad_request = Inr body_foo" by (simp add: example_defs)
  have h3: "candidates bad_request (init_errors init_kinds) = [bar_kind] @ foo_kind # []"
    by (simp add: example_defs)
  have h4: "\<forall>P\<in>set [bar_kind]. rejects P body_foo" by (simp add: example_defs)
  have h5: "accepts foo_kind body_foo (JObj [(''foo'', JNum 1)])" by (simp add: example_defs)
  have h6: "status bad_request = 400" "statusText bad_request = ''Bad Request''"
    by (simp_all add: example_defs)
  from typed_error_fields [OF h1 h2 h3 h4 h5] h1 h3 h4 h5 h6 show ?thesis by simp
qed

subsection \<open>C6: an error that is not a validation error\<close>

text \<open>
  C6, as stated, says that dispatch propagates the error a schema throws. Inside
  \<open>handleErrorResponse\<close> it does; but \<open>fetcher\<close> awaits \<open>handleErrorResponse\<close> in its
  \<^verbatim>\<open>try\<close> block, and its \<^verbatim>\<open>catch\<close> block throws a new error in place of a plain one.
\<close>

theorem other_error_counterexample:
  "\<not> ok server_error
   \<and> candidates server_error (init_errors init_boom_first) = [boom_kind, accepting_kind]
   \<and> validate (static_schema boom_kind) body_foo = Throw (ErrorObj ''boom'')
   \<and> snd (handleErrorResponse server_error (init_errors init_boom_first)) = ErrorObj ''boom''
   \<and> snd (fetcher (Return server_error) init_boom_first)
       = Throw (ErrorObj ''Request failed: boom'')
   \<and> ErrorObj ''Request failed: boom'' \<noteq> ErrorObj ''boom''"
  by (simp add: fetcher_def handleErrorResponse_def attempt_def example_defs)

text \<open>
  C6, amended. When the classes before \<open>E\<close> reject and the \<^verbatim>\<open>validate\<close> of \<open>E\<close>'s
  schema throws \<open>t\<close>, which is no \<open>SchemaValidationError\<close>, \<open>handleErrorResponse\<close> throws
  \<open>t\<close> itself and no schema of a later class is called. \<open>fetcher\<close> then throws \<open>t\<close>
  itself when \<open>t\<close> is an \<^verbatim>\<open>ApiError\<close>; otherwise it throws a new error whose message is
  \<open>Request failed: \<close> followed by the message of \<open>t\<close>, or by \<open>Unknown error\<close> when \<open>t\<close>
  is no \<^verbatim>\<open>Error\<close>. \<open>validateSchema\<close> passes on unchanged whatever \<^verbatim>\<open>validate\<close>
  throws, turns a result with an issues field into a \<open>SchemaValidationError\<close> that
  carries the issues, returns the value of a result without that field, and throws a
  \<open>SchemaValidationError\<close> in no other way.
\<close>

theorem other_error_abandons:
  assumes "json_result r = Inr d"
    and "candidates r (init_errors init) = pre @ E # post"
    and "\<forall>P\<in>set pre. rejects P d"
    and "validate (static_schema E) d = Throw t" and "\<not> is_SchemaValidationError t"
  shows "handleErrorResponse r (init_errors init) = (ReadJson # validations d (pre @ [E]), t)
       \<and> (\<not> ok r \<longrightarrow>
            fetcher (Return r) init
              = (ReadJson # validations d (pre @ [E]), Throw (fetcher_catch t)))
       \<and> (\<forall>e. t = ApiErrorInstance e \<longrightarrow> fetcher_catch t = t)
       \<and> (\<forall>m. t = ErrorObj m \<longrightarrow> fetcher_catch t = ErrorObj (''Request failed: '' @ m))
       \<and> (t = NonError \<longrightarrow> fetcher_catch t = ErrorObj ''Request failed: Unknown error'')
       \<and> (\<forall>s x u. validate s x = Throw u \<longrightarrow> validateSchema s x = ([Validate s x], Throw u))
       \<and> (\<forall>s x res iss. validate s x = Return res \<and> result_issues res = Some iss \<longrightarrow>
            validateSchema s x
              = ([Validate s x],
                 Throw (SchemaValidationError
                          (''Validation failed: '' @ first_issue_message iss) iss)))
       \<and> (\<forall>s x res. validate s x = Return res \<and> result_issues res = None \<longrightarrow>
            validateSchema s x = ([Validate s x], Return (result_value res)))
       \<and> (\<forall>s x m iss. snd (validateSchema s x) = Throw (SchemaValidationError m iss) \<longrightarrow>
            validate s x = Throw (SchemaValidationError m iss)
            \<or> (\<exists>res. validate s x = Return res \<and> result_issues res = Some iss))"
proof -
  have h: "handleErrorResponse r (init_errors init) = (ReadJson # validations d (pre @ [E]), t)"
    using handleErrorResponse_first
      [OF assms(1) assms(2) assms(3) throws_not_rejects [OF assms(4) assms(5)]]
      throws_attempt [OF assms(4)] by simp
  have a: "\<forall>s x u. validate s x = Throw u \<longrightarrow> validateSchema s x = ([Validate s x], Throw u)"
    by (simp add: validateSchema_def)
  have b: "\<forall>s x m iss. snd (validateSchema s x) = Throw (SchemaValidationError m iss) \<longrightarrow>
            validate s x = Throw (SchemaValidationError m iss)
            \<or> (\<exists>res. validate s x = Return res \<and> result_issues res = Some iss)"
    by (auto simp: validateSchema_def split: outcome.splits option.splits)
  have c: "\<forall>s x res iss. validate s x = Return res \<and> result_issues res = Some iss \<longrightarrow>
            validateSchema s x
              = ([Validate s x],
                 Throw (SchemaValidationError
                          (''Validation failed: '' @ first_issue_message iss) iss))"
    by (simp add: validateSchema_def)
  have e: "\<forall>s x res. validate s x = Return res \<and> result_issues res = None \<longrightarrow>
            validateSchema s x = ([Validate s x], Return (result_value res))"
    by (simp add: validateSchema_def)
  have g: "(\<forall>e. t = ApiErrorInstance e \<longrightarrow> fetcher_catch t = t)
       \<and> (\<forall>m. t = ErrorObj m \<longrightarrow> fetcher_catch t = ErrorObj (''Request failed: '' @ m))
       \<and> (t = NonError \<longrightarrow> fetcher_catch t = ErrorObj ''Request failed: Unknown error'')"
    by (cases t) simp_all
  have f: "\<not> ok r \<longrightarrow>
            fetcher (Return r) init
              = (ReadJson # validations d (pre @ [E]), Throw (fetcher_catch t))"
    using h by (simp add: fetcher_not_ok)
  show ?thesis using h f g a c e b by (intro conjI) blast+
qed

text \<open>
  A throwing class followed by an accepting one, both for the status 500: the second is
  never validated. A schema that answers with an issue, and one that accepts.
\<close>

theorem other_error_abandons_witness:
  "\<not> ok server_error
   \<and> candidates server_error (init_errors init_boom_first) = [boom_kind, accepting_kind]
   \<and> validate (static_schema boom_kind) body_foo = Throw (ErrorObj ''boom'')
   \<and> accepts accepting_kind body_foo (JObj [(''foo'', JNum 1)])
   \<and> handleErrorResponse server_error (init_errors init_boom_first)
       = ([ReadJson, Validate (static_schema boom_kind) body_foo], ErrorObj ''boom'')
   \<and> fetcher (Return server_error) init_boom_first
       = ([ReadJson, Validate (static_schema boom_kind) body_foo],
          Throw (ErrorObj ''Request failed: boom''))
   \<and> validateSchema throwing_schema body_foo
       = ([Validate throwing_schema body_foo], Throw (ErrorObj ''boom''))
   \<and> validateSchema (object_with ''id'') body_foo
       = ([Validate (object_with ''id'') body_foo],
          Throw (SchemaValidationError ''Validation failed: Required''
                   [\<lparr>message = ''Required''\<rparr>]))
   \<and> validateSchema (object_with ''foo'') body_foo
       = ([Validate (object_with ''foo'') body_foo], Return (JObj [(''foo'', JNum 1)]))"
proof -
  have h1: "json_result server_error = Inr body_foo" by (simp add: example_defs)
  have h2: "candidates server_error (init_errors init_boom_first)
              = [] @ boom_kind # [accepting_kind]"
    by (simp add: example_defs)
  have h3: "\<forall>P\<in>set []. rejects P body_foo" by simp
  have h4: "validate (static_schema boom_kind) body_foo = Throw (ErrorObj ''boom'')"
    by (simp add: example_defs)
  have h5: "\<not> is_SchemaValidationError (ErrorObj ''boom'')" by simp
  have h6: "\<not> ok server_error" by (simp add: example_defs)
  have h7: "accepts accepting_kind body_foo (JObj [(''foo'', JNum 1)])"
    by (simp add: example_defs)
  have h8: "validate throwing_schema body_foo = Throw (ErrorObj ''boom'')"
    by (simp add: throwing_schema_def)
  have h9: "validate (object_with ''id'') body_foo
              = Return \<lparr>result_issues = Some [\<lparr>message = ''Required''\<rparr>], result_value = JNull\<rparr>"
    by (simp add: example_defs)
  have h10: "validate (object_with ''foo'') body_foo
              = Return \<lparr>result_issues = None, result_value = JObj [(''foo'', JNum 1)]\<rparr>"
    by (simp add: example_defs)
  note fact = other_error_abandons [OF h1 h2 h3 h4 h5]
  have w1: "handleErrorResponse server_error (init_errors init_boom_first)
       = ([ReadJson, Validate (static_schema boom_kind) body_foo], ErrorObj ''boom'')"
    using fact by (simp add: validations_def)
  have w2: "fetcher (Return server_error) init_boom_first
       = ([ReadJson, Validate (static_schema boom_kind) body_foo],
          Throw (ErrorObj ''Request failed: boom''))"
    using fact h6 by (simp add: validations_def)
  have w3: "validateSchema throwing_schema body_foo
       = ([Validate throwing_schema body_foo], Throw (ErrorObj ''boom''))"
    using fact h8 by blast
  have c1: "validateSchema s x
              = ([Validate s x],
                 Throw (SchemaValidationError
                          (''Validation failed: '' @ first_issue_message iss) iss))"
    if "validate s x = Return res" "result_issues res = Some iss" for s x res iss
    using fact that by blast
  have c2: "validateSchema s x = ([Validate s x], Return (result_value res))"
    if "validate s x = Return res" "result_issues res = None" for s x res
    using fact that by blast
  have w4: "validateSchema (object_with ''id'') body_foo
       = ([Validate (object_with ''id'') body_foo],
          Throw (SchemaValidationError
                   (''Validation failed: '' @ first_issue_message [\<lparr>message = ''Required''\<rparr>])
                   [\<lparr>message = ''Required''\<rparr>]))"
    using c1 [OF h9, of "[\<lparr>message = ''Required''\<rparr>]"] by simp
  have w5: "validateSchema (object_with ''foo'') body_foo
       = ([Validate (object_with ''foo'') body_foo], Return (JObj [(''foo'', JNum 1)]))"
    using c2 [OF h10] by simp
  show ?thesis
    using h6 h2 h4 h7 w1 w2 w3 w4 w5 by (simp add: first_issue_message_def)
qed

subsection \<open>C7: what defineError returns\<close>

text \<open>
  C7. For every status code (any integer), schema and optional name, the class that
  \<open>defineError\<close> returns has that status code and that schema as static fields, and an
  instance built from it has that status code and the data, response and message it was
  built with, and is an instance of the class.
\<close>

theorem defineError_static:
  "static_statusCode (fst (defineError rt sc s n)) = sc
   \<and> static_schema (fst (defineError rt sc s n)) = s
   \<and> statusCode (construct (fst (defineError rt sc s n)) m d r) = sc
   \<and> data (construct (fst (defineError rt sc s n)) m d r) = d
   \<and> error_response (construct (fst (defineError rt sc s n)) m d r) = r
   \<and> error_message (construct (fst (defineError rt sc s n)) m d r) = m
   \<and> instance_of (construct (fst (defineError rt sc s n)) m d r) (fst (defineError rt sc s n))"
  by (simp add: defineError_def construct_def instance_of_def)

text \<open>A status code that no response has.\<close>

theorem defineError_static_witness:
  "static_statusCode (fst (defineError rt0 (- 1) throwing_schema None)) = - 1
   \<and> static_schema (fst (defineError rt0 (- 1) throwing_schema None)) = throwing_schema
   \<and> statusCode (construct (fst (defineError rt0 (- 1) throwing_schema None))
                    ''m'' JNull bad_request) = - 1"
  using defineError_static [of rt0 "- 1" throwing_schema None "''m''" JNull bad_request]
  by simp

subsection \<open>C8: the name of an instance\<close>

text \<open>
  C8, as stated, says that instances carry the given display name, and without one a
  non-empty default. The default is the \<^verbatim>\<open>name\<close> of the class, which
  \<open>defineError\<close> writes as a class expression without a name: where the engine gives
  such a class the empty name, the instance's name is empty; and where the class has a
  name, the display name \<^verbatim>\<open>''\<close> is not carried, since the empty string is falsy.
\<close>

theorem error_name_counterexample:
  "error_name (construct (fst (defineError rt0 404 (object_with ''message'') None))
                 ''Not Found'' JNull (response_of 404 ''Not Found'')) = []
   \<and> error_name (construct (fst (defineError rt_named 404 (object_with ''message'') (Some [])))
                 ''Not Found'' JNull (response_of 404 ''Not Found'')) = ''_a''"
  by (simp add: defineError_def construct_def rt0_def rt_named_def)

text \<open>
  C8, amended. Instances of a class made with a non-empty display name carry that name;
  instances of a class made without one, or with the empty string, carry the class's own
  \<^verbatim>\<open>name\<close> as the engine set it.
\<close>

theorem error_name_rule:
  "(n = Some dn \<and> dn \<noteq> [] \<longrightarrow>
      error_name (construct (fst (defineError rt sc s n)) m d r) = dn)
   \<and> (n = None \<or> n = Some [] \<longrightarrow>
      error_name (construct (fst (defineError rt sc s n)) m d r) = anonymous_class_name rt)"
  by (auto simp: defineError_def construct_def)

theorem error_name_rule_witness:
  "error_name (construct foo_kind ''Bad Request'' JNull bad_request) = ''FooError''
   \<and> error_name (construct bar_kind ''Bad Request'' JNull bad_request) = anonymous_class_name rt1"
  using error_name_rule [of "Some ''FooError''" "''FooError''" rt2 400 "object_with ''foo''"
                            "''Bad Request''" JNull bad_request]
        error_name_rule [of None "[]" rt1 400 "object_with ''bar''"
                            "''Bad Request''" JNull bad_request]
  by (simp add: foo_kind_def bar_kind_def)

subsection \<open>C9: a typed error reaches the caller\<close>

text \<open>
  C9. An \<^verbatim>\<open>ApiError\<close> instance thrown during a call of \<open>fetcher\<close> reaches the caller
  as it is, wherever it is thrown:
  \<^item> by \<^verbatim>\<open>fetch\<close>: the \<^verbatim>\<open>catch\<close> block maps it to itself;
  \<^item> in the loop, in the \<^verbatim>\<open>try\<close> block of the first class that does not reject
    (built there from an accepted body, or thrown by the class's schema): the loop's
    \<^verbatim>\<open>catch\<close> re-throws it, \<open>handleErrorResponse\<close> throws it and so does \<open>fetcher\<close>;
  \<^item> by \<open>handleErrorResponse\<close> in general;
  \<^item> on the success path, by the success schema while \<open>parseResponse\<close> validates: the
    \<^verbatim>\<open>catch\<close> of \<open>parseResponse\<close> re-throws it and \<open>fetcher\<close> throws it;
  \<^item> by \<open>parseResponse\<close> in general.
\<close>

theorem api_error_surfaces:
  "fetcher_catch (ApiErrorInstance e) = ApiErrorInstance e
   \<and> fetcher (Throw (ApiErrorInstance e)) init = ([], Throw (ApiErrorInstance e))
   \<and> (\<not> ok r \<and> handleErrorResponse r (init_errors init) = (lg, ApiErrorInstance e)
        \<longrightarrow> fetcher (Return r) init = (lg, Throw (ApiErrorInstance e)))
   \<and> (ok r \<longrightarrow> fetcher (Return r) init = parseResponse r (init_schema init))
   \<and> (json_result r = Inr d \<and> candidates r errs = pre @ E # post
        \<and> (\<forall>P\<in>set pre. rejects P d) \<and> snd (attempt r d E) = ApiErrorInstance e
      \<longrightarrow> snd (handleErrorResponse r errs) = ApiErrorInstance e)
   \<and> (\<not> ok r \<and> json_result r = Inr d \<and> candidates r (init_errors init) = pre @ E # post
        \<and> (\<forall>P\<in>set pre. rejects P d) \<and> snd (attempt r d E) = ApiErrorInstance e
      \<longrightarrow> fetcher (Return r) init
            = (ReadJson # validations d (pre @ [E]), Throw (ApiErrorInstance e)))
   \<and> (\<not> ok r \<and> json_result r = Inr d \<and> candidates r (init_errors init) = pre @ E # post
        \<and> (\<forall>P\<in>set pre. rejects P d)
        \<and> validate (static_schema E) d = Throw (ApiErrorInstance e)
      \<longrightarrow> fetcher (Return r) init
            = (ReadJson # validations d (pre @ [E]), Throw (ApiErrorInstance e)))
   \<and> (ok r \<and> status r \<noteq> 204 \<and> content_length r \<noteq> Some ''0'' \<and> json_result r = Inr d
        \<and> init_schema init = Some s \<and> validate s d = Throw (ApiErrorInstance e)
      \<longrightarrow> fetcher (Return r) init = ([ReadJson, Validate s d], Throw (ApiErrorInstance e)))
   \<and> (ok r \<and> parseResponse r (init_schema init) = (lg, Throw (ApiErrorInstance e))
      \<longrightarrow> fetcher (Return r) init = (lg, Throw (ApiErrorInstance e)))"
proof -
  have 1: "fetcher (Throw (ApiErrorInstance e)) init = ([], Throw (ApiErrorInstance e))"
    by (simp add: fetcher_def)
  have 2: "fetcher (Return r) init = (lg, Throw (ApiErrorInstance e))"
    if "\<not> ok r" "handleErrorResponse r (init_errors init) = (lg, ApiErrorInstance e)"
    using that by (simp add: fetcher_not_ok)
  have 3: "fetcher (Return r) init = parseResponse r (init_schema init)" if "ok r"
    using that by (simp add: fetcher_def)
  have 4: "handleErrorResponse r errs = (ReadJson # validations d (pre @ [E]), ApiErrorInstance e)"
    if "json_result r = Inr d" "candidates r errs = pre @ E # post"
       "\<forall>P\<in>set pre. rejects P d" "snd (attempt r d E) = ApiErrorInstance e" for errs
  proof -
    have "\<not> rejects E d" using that(4) rejects_attempt [of E d r] by simp
    from handleErrorResponse_first [OF that(1) that(2) that(3) this] that(4)
    show ?thesis by simp
  qed
  have 5: "fetcher (Return r) init
             = (ReadJson # validations d (pre @ [E]), Throw (ApiErrorInstance e))"
    if "\<not> ok r" "json_result r = Inr d" "candidates r (init_errors init) = pre @ E # post"
       "\<forall>P\<in>set pre. rejects P d" "snd (attempt r d E) = ApiErrorInstance e"
    using 4 [OF that(2) that(3) that(4) that(5)] that(1) by (simp add: fetcher_not_ok)
  have 6: "fetcher (Return r) init
             = (ReadJson # validations d (pre @ [E]), Throw (ApiErrorInstance e))"
    if "\<not> ok r" "json_result r = Inr d" "candidates r (init_errors init) = pre @ E # post"
       "\<forall>P\<in>set pre. rejects P d" "validate (static_schema E) d = Throw (ApiErrorInstance e)"
    using 5 [OF that(1) that(2) that(3) that(4) throws_attempt [OF that(5)]] .
  have 7: "fetcher (Return r) init = ([ReadJson, Validate s d], Throw (ApiErrorInstance e))"
    if "ok r" "status r \<noteq> 204" "content_length r \<noteq> Some ''0''" "json_result r = Inr d"
       "init_schema init = Some s" "validate s d = Throw (ApiErrorInstance e)"
    using that by (simp add: fetcher_def parseResponse_def validateSchema_def)
  have 8: "fetcher (Return r) init = (lg, Throw (ApiErrorInstance e))"
    if "ok r" "parseResponse r (init_schema init) = (lg, Throw (ApiErrorInstance e))"
    using that by (simp add: fetcher_def)
  have 9: "snd (handleErrorResponse r errs) = ApiErrorInstance e"
    if "json_result r = Inr d" "candidates r errs = pre @ E # post"
       "\<forall>P\<in>set pre. rejects P d" "snd (attempt r d E) = ApiErrorInstance e"
    using 4 [OF that] by simp
  show ?thesis using 1 2 3 5 6 7 8 9 by simp
qed

text \<open>
  An instance built in the loop, and an instance thrown by the success schema of a
  response with status 200.
\<close>

theorem api_error_surfaces_witness:
  "\<not> ok bad_request
   \<and> handleErrorResponse bad_request (init_errors init_kinds)
     = (ReadJson # validations body_foo [bar_kind, foo_kind],
        ApiErrorInstance
          (construct foo_kind ''Bad Request'' (JObj [(''foo'', JNum 1)]) bad_request))
   \<and> fetcher (Return bad_request) init_kinds
     = (ReadJson # validations body_foo [bar_kind, foo_kind],
        Throw (ApiErrorInstance
                 (construct foo_kind ''Bad Request'' (JObj [(''foo'', JNum 1)]) bad_request)))
   \<and> ok (response_of 200 ''OK'')
   \<and> validate api_throwing_schema body_foo = Throw (ApiErrorInstance thrown_instance)
   \<and> fetcher (Return (response_of 200 ''OK'')) init_api_throwing
     = ([ReadJson, Validate api_throwing_schema body_foo],
        Throw (ApiErrorInstance thrown_instance))"
proof -
  let ?e = "construct foo_kind ''Bad Request'' (JObj [(''foo'', JNum 1)]) bad_request"
  let ?ok = "response_of 200 ''OK''"
  have h2: "json_result bad_request = Inr body_foo" by (simp add: example_defs)
  have h3: "candidates bad_request (init_errors init_kinds) = [bar_kind] @ foo_kind # []"
    by (simp add: example_defs)
  have h4: "\<forall>P\<in>set [bar_kind]. rejects P body_foo" by (simp add: example_defs)
  have h5: "snd (attempt bad_request body_foo foo_kind) = ApiErrorInstance ?e"
    by (simp add: attempt_def example_defs)
  have h6: "\<not> ok bad_request" by (simp add: example_defs)
  have h7: "fst (handleErrorResponse bad_request (init_errors init_kinds))
              = ReadJson # validations body_foo [bar_kind, foo_kind]"
    using handleErrorResponse_first [OF h2 h3 h4] h5
    by (simp add: rejects_attempt [of foo_kind body_foo bad_request])
  have h8: "snd (handleErrorResponse bad_request (init_errors init_kinds)) = ApiErrorInstance ?e"
    using api_error_surfaces
      [where r = bad_request and d = body_foo and errs = "init_errors init_kinds"
         and pre = "[bar_kind]" and E = foo_kind and post = "[]" and e = ?e]
      h2 h3 h4 h5 by simp
  have h9: "handleErrorResponse bad_request (init_errors init_kinds)
              = (ReadJson # validations body_foo [bar_kind, foo_kind], ApiErrorInstance ?e)"
    using h7 h8 by (simp add: prod_eq_iff)
  have w1: "fetcher (Return bad_request) init_kinds
     = (ReadJson # validations body_foo [bar_kind, foo_kind], Throw (ApiErrorInstance ?e))"
    using api_error_surfaces
      [where r = bad_request and init = init_kinds and e = ?e and d = body_foo
         and pre = "[bar_kind]" and E = foo_kind and post = "[]"]
      h6 h2 h3 h4 h5 by simp
  have k1: "ok ?ok" by (simp add: example_defs)
  have k2: "status ?ok \<noteq> 204" by (simp add: example_defs)
  have k3: "content_length ?ok \<noteq> Some ''0''" by (simp add: example_defs)
  have k4: "json_result ?ok = Inr body_foo" by (simp add: example_defs)
  have k5: "init_schema init_api_throwing = Some api_throwing_schema"
    by (simp add: example_defs)
  have k6: "validate api_throwing_schema body_foo = Throw (ApiErrorInstance thrown_instance)"
    by (simp add: api_throwing_schema_def)
  have w2: "fetcher (Return ?ok) init_api_throwing
     = ([ReadJson, Validate api_throwing_schema body_foo],
        Throw (ApiErrorInstance thrown_instance))"
    using api_error_surfaces
      [where r = ?ok and init = init_api_throwing and e = thrown_instance and d = body_foo
         and s = api_throwing_schema]
      k1 k2 k3 k4 k5 k6 by blast
  show ?thesis using h6 h9 w1 k1 k6 w2 by simp
qed

subsection \<open>C10: the issues field decides\<close>

text \<open>
  C10. When the schema's \<^verbatim>\<open>validate\<close> resolves to a result, \<open>validateSchema\<close> returns the
  result's value exactly when the result has no issues field. When the field is present,
  also as the empty list, it throws a \<open>SchemaValidationError\<close> that carries exactly that
  list; its message is \<open>Validation failed: \<close> followed by the first issue's message, or by
  \<open>Unknown error\<close> when there is no first issue (or its message is the empty string).
\<close>

theorem validateSchema_issues_field:
  assumes "validate s d = Return result"
  shows "(snd (validateSchema s d) = Return (result_value result)
            \<longleftrightarrow> result_issues result = None)
       \<and> (\<forall>iss. result_issues result = Some iss \<longrightarrow>
            snd (validateSchema s d)
              = Throw (SchemaValidationError (''Validation failed: '' @ first_issue_message iss) iss))
       \<and> first_issue_message [] = ''Unknown error''
       \<and> (\<forall>i rest. first_issue_message (i # rest)
            = (if message i = [] then ''Unknown error'' else message i))"
  using assms by (auto simp: validateSchema_def first_issue_message_def split: option.splits)

text \<open>A schema that answers with an empty list of issues.\<close>

theorem validateSchema_issues_field_witness:
  "validate empty_issues_schema JNull = Return \<lparr>result_issues = Some [], result_value = JNull\<rparr>
   \<and> snd (validateSchema empty_issues_schema JNull)
       = Throw (SchemaValidationError ''Validation failed: Unknown error'' [])"
proof -
  have h: "validate empty_issues_schema JNull
             = Return \<lparr>result_issues = Some [], result_value = JNull\<rparr>"
    by (simp add: empty_issues_schema_def)
  from validateSchema_issues_field [OF h] h show ?thesis by simp
qed

end
